theory Spec2Isabelle
  imports Complex_Main "HOL-Library.Signed_Division"
begin

section \<open>Data model (types.ts)\<close>

text \<open>
  The TypeScript interfaces of \<^verbatim>\<open>types.ts\<close> become records. A finite JavaScript
  \<^verbatim>\<open>number\<close> (a clock reading, a split time) is an exact rational: the rounding of
  IEEE doubles is outside the model. An optional property is an \<open>option\<close>; \<open>None\<close>
  stands for both \<^verbatim>\<open>undefined\<close> and \<^verbatim>\<open>null\<close>. Field names that occur in several
  interfaces carry a short prefix.
\<close>

datatype discipline = Treadmill | SkiErg | Rowing

record Person =
  p_id :: string
  p_name :: string
  p_createdAt :: string
  p_createdBy :: "string option"

record Split =
  discipline :: discipline
  time :: rat
  timestamp :: string

record RaceResult =
  rr_id :: string
  personId :: string
  personName :: string
  rr_splits :: "Split list"
  totalTime :: rat
  completedAt :: string
  rr_createdBy :: "string option"

text \<open>The signed-in Firebase user, as far as the components read it.\<close>

record User =
  email :: "string option"
  uid :: string

text \<open>
  \<^verbatim>\<open>user?.email || user?.uid || undefined\<close>: the first non-empty string, if any.
\<close>

definition currentUserId :: "User option \<Rightarrow> string option" where
  "currentUserId user =
     (case user of
        None \<Rightarrow> None
      | Some u \<Rightarrow>
          (case email u of
             Some e \<Rightarrow> if e \<noteq> [] then Some e else if uid u \<noteq> [] then Some (uid u) else None
           | None \<Rightarrow> if uid u \<noteq> [] then Some (uid u) else None))"

text \<open>Truthiness of an optional string: present and non-empty.\<close>

definition truthy_str :: "string option \<Rightarrow> bool" where
  "truthy_str s = (case s of None \<Rightarrow> False | Some t \<Rightarrow> t \<noteq> [])"

section \<open>Race state machine (RaceTimer.tsx)\<close>

text \<open>
  \<^verbatim>\<open>DISCIPLINES[i]\<close> is \<^verbatim>\<open>undefined\<close> outside 0..2, and reading \<^verbatim>\<open>.key\<close> of it throws
  a TypeError.
\<close>

datatype error = TypeError

definition DISCIPLINES :: "discipline list" where
  "DISCIPLINES = [Treadmill, SkiErg, Rowing]"

text \<open>The props and state of one RaceTimer component that the handlers read.\<close>

record RaceTimer =
  raceId :: string
  person :: Person
  startTimeRef :: rat
  splits :: "Split list"
  currentDisciplineIndex :: nat
  rt_canModify :: bool
  raceCreatedBy :: "string option"

text \<open>
  \<^verbatim>\<open>splits.reduce((sum, s) => sum + s.time, 0)\<close>
\<close>

definition sum_times :: "Split list \<Rightarrow> rat" where
  "sum_times ss = foldl (\<lambda>sum s. sum + time s) 0 ss"

text \<open>
  \<^verbatim>\<open>handleComplete(finalSplits)\<close> reads the clock itself: \<open>now\<close> is its
  \<^verbatim>\<open>Date.now()\<close> and \<open>stamp\<close> its \<^verbatim>\<open>new Date().toISOString()\<close>. It returns the
  result handed to \<^verbatim>\<open>storage.saveResult\<close>.
\<close>

definition handleComplete ::
  "RaceTimer \<Rightarrow> User option \<Rightarrow> Split list \<Rightarrow> rat \<Rightarrow> string \<Rightarrow> RaceResult" where
  "handleComplete rt user finalSplits now stamp =
     (let total = now - startTimeRef rt;
          createdBy = (if truthy_str (raceCreatedBy rt) then raceCreatedBy rt
                       else currentUserId user)
      in \<lparr>rr_id = raceId rt, personId = p_id (person rt), personName = p_name (person rt),
          rr_splits = finalSplits, totalTime = total, completedAt = stamp,
          rr_createdBy = createdBy\<rparr>)"

text \<open>
  What one call of \<^verbatim>\<open>handleSplit\<close> does: the new local state, the arguments of
  \<^verbatim>\<open>onUpdate\<close>, the result saved when the race completes, and whether
  \<^verbatim>\<open>onRaceComplete\<close> was called.
\<close>

record SplitOutcome =
  newState :: RaceTimer
  onUpdate :: "Split list \<times> nat"
  saved :: "RaceResult option"
  raceCompleteCalled :: bool

text \<open>
  \<^verbatim>\<open>handleSplit\<close>. The pair \<open>clock\<close> is the clock as read in the handler itself
  (\<^verbatim>\<open>Date.now()\<close> and the ISO time stamp), \<open>clock'\<close> the clock as read afterwards
  inside \<^verbatim>\<open>handleComplete\<close>. The TypeError of the discipline lookup is thrown before
  anything is set or written.
\<close>

definition handleSplit ::
  "RaceTimer \<Rightarrow> User option \<Rightarrow> rat \<times> string \<Rightarrow> rat \<times> string \<Rightarrow> error + SplitOutcome" where
  "handleSplit rt user clock clock' =
     (if currentDisciplineIndex rt < length DISCIPLINES then
        (let key = DISCIPLINES ! currentDisciplineIndex rt;
             splitTime = fst clock - startTimeRef rt - sum_times (splits rt);
             newSplit = \<lparr>discipline = key, time = splitTime, timestamp = snd clock\<rparr>;
             newSplits = splits rt @ [newSplit];
             newDisciplineIndex = currentDisciplineIndex rt + 1
         in Inr \<lparr>newState = rt\<lparr>splits := newSplits, currentDisciplineIndex := newDisciplineIndex\<rparr>,
                 onUpdate = (newSplits, newDisciplineIndex),
                 saved = (if newDisciplineIndex \<ge> length DISCIPLINES
                          then Some (handleComplete rt user newSplits (fst clock') (snd clock'))
                          else None),
                 raceCompleteCalled = (newDisciplineIndex \<ge> length DISCIPLINES)\<rparr>)
      else Inl TypeError)"

text \<open>
  The render function: \<^verbatim>\<open>isComplete\<close>, and the condition under which the
  "Take Split" button exists.
\<close>

definition isComplete :: "RaceTimer \<Rightarrow> bool" where
  "isComplete rt = (currentDisciplineIndex rt \<ge> length DISCIPLINES)"

definition split_btn_rendered :: "RaceTimer \<Rightarrow> bool" where
  "split_btn_rendered rt = (\<not> isComplete rt \<and> rt_canModify rt)"

text \<open>
  A take-split attempt by the operator: the click reaches \<^verbatim>\<open>handleSplit\<close> only when
  the button is rendered. \<open>None\<close>: there was nothing to click, nothing ran.
\<close>

definition takeSplit ::
  "RaceTimer \<Rightarrow> User option \<Rightarrow> rat \<times> string \<Rightarrow> rat \<times> string \<Rightarrow> (error + SplitOutcome) option" where
  "takeSplit rt user clock clock' =
     (if split_btn_rendered rt then Some (handleSplit rt user clock clock') else None)"


section \<open>JavaScript numbers and strings\<close>

text \<open>
  Where the code can meet \<^verbatim>\<open>NaN\<close> or \<^verbatim>\<open>Infinity\<close> (the results of
  \<^verbatim>\<open>parseInt\<close> and \<^verbatim>\<open>parseFloat\<close>, the \<^verbatim>\<open>|| Infinity\<close> of the leaderboard) a
  number is a value of the following type; finite values stay exact rationals, and
  \<open>-0\<close> is \<open>0\<close> (the code never tells them apart).
\<close>

datatype number = NaN | Num rat | PosInf | NegInf

fun js_add :: "number \<Rightarrow> number \<Rightarrow> number" where
  "js_add (Num a) (Num b) = Num (a + b)"
| "js_add NaN _ = NaN"
| "js_add _ NaN = NaN"
| "js_add PosInf NegInf = NaN"
| "js_add NegInf PosInf = NaN"
| "js_add PosInf _ = PosInf"
| "js_add _ PosInf = PosInf"
| "js_add NegInf _ = NegInf"
| "js_add _ NegInf = NegInf"

fun js_neg :: "number \<Rightarrow> number" where
  "js_neg NaN = NaN"
| "js_neg (Num a) = Num (- a)"
| "js_neg PosInf = NegInf"
| "js_neg NegInf = PosInf"

definition js_sub :: "number \<Rightarrow> number \<Rightarrow> number" where
  "js_sub a b = js_add a (js_neg b)"

fun js_mul :: "number \<Rightarrow> number \<Rightarrow> number" where
  "js_mul (Num a) (Num b) = Num (a * b)"
| "js_mul NaN _ = NaN"
| "js_mul _ NaN = NaN"
| "js_mul PosInf (Num b) = (if b = 0 then NaN else if 0 < b then PosInf else NegInf)"
| "js_mul NegInf (Num b) = (if b = 0 then NaN else if 0 < b then NegInf else PosInf)"
| "js_mul (Num a) PosInf = (if a = 0 then NaN else if 0 < a then PosInf else NegInf)"
| "js_mul (Num a) NegInf = (if a = 0 then NaN else if 0 < a then NegInf else PosInf)"
| "js_mul PosInf PosInf = PosInf"
| "js_mul NegInf NegInf = PosInf"
| "js_mul PosInf NegInf = NegInf"
| "js_mul NegInf PosInf = NegInf"

text \<open>\<^verbatim>\<open>a < b\<close> and \<^verbatim>\<open>a > b\<close>: false whenever an operand is \<^verbatim>\<open>NaN\<close>.\<close>

fun js_lt :: "number \<Rightarrow> number \<Rightarrow> bool" where
  "js_lt (Num a) (Num b) = (a < b)"
| "js_lt NaN _ = False"
| "js_lt _ NaN = False"
| "js_lt _ NegInf = False"
| "js_lt PosInf _ = False"
| "js_lt NegInf _ = True"
| "js_lt _ PosInf = True"

definition js_gt :: "number \<Rightarrow> number \<Rightarrow> bool" where
  "js_gt a b = js_lt b a"

definition isNaN :: "number \<Rightarrow> bool" where
  "isNaN n = (n = NaN)"

text \<open>Truthiness of a number: everything but \<^verbatim>\<open>0\<close> and \<^verbatim>\<open>NaN\<close>.\<close>

definition truthy :: "number \<Rightarrow> bool" where
  "truthy n = (n \<noteq> NaN \<and> n \<noteq> Num 0)"

text \<open>Truthiness of an optional number: \<^verbatim>\<open>undefined\<close> and \<^verbatim>\<open>null\<close> are falsy.\<close>

definition truthy_opt :: "number option \<Rightarrow> bool" where
  "truthy_opt v = (case v of None \<Rightarrow> False | Some n \<Rightarrow> truthy n)"

text \<open>
  Strings are lists of characters. The white space that \<^verbatim>\<open>trim\<close>, \<^verbatim>\<open>parseInt\<close> and
  \<^verbatim>\<open>parseFloat\<close> strip is the ASCII part of it: space, tab, line feed, vertical tab,
  form feed, carriage return.
\<close>

definition is_ws :: "char \<Rightarrow> bool" where
  "is_ws c = (c \<in> set [CHR '' '', CHR 0x09, CHR 0x0A, CHR 0x0B, CHR 0x0C, CHR 0x0D])"

definition trim :: "string \<Rightarrow> string" where
  "trim s = rev (dropWhile is_ws (rev (dropWhile is_ws s)))"

text \<open>
  \<^verbatim>\<open>s.split(sep)\<close> for a one-character separator: always at least one part.
\<close>

fun split :: "char \<Rightarrow> string \<Rightarrow> string list" where
  "split sep [] = [[]]"
| "split sep (c # cs) =
     (if c = sep then [] # split sep cs
      else (c # hd (split sep cs)) # tl (split sep cs))"

definition is_digit :: "char \<Rightarrow> bool" where
  "is_digit c = (c \<in> set ''0123456789'')"

definition digit_val :: "char \<Rightarrow> nat" where
  "digit_val c = of_char c - 48"

definition digits_val :: "string \<Rightarrow> nat" where
  "digits_val ds = foldl (\<lambda>n c. 10 * n + digit_val c) 0 ds"

text \<open>
  An optional sign at the head of a string: whether it is a minus, and the rest.
\<close>

definition strip_sign :: "string \<Rightarrow> bool \<times> string" where
  "strip_sign s =
     (case s of
        [] \<Rightarrow> (False, [])
      | c # r \<Rightarrow> if c = CHR ''-'' then (True, r) else if c = CHR ''+'' then (False, r) else (False, s))"

text \<open>
  \<^verbatim>\<open>parseInt(str, 10)\<close>: leading white space is skipped, a sign is read, then the
  longest run of decimal digits; what follows the digits is ignored; no digit gives
  \<^verbatim>\<open>NaN\<close>.
\<close>

definition parseInt :: "string \<Rightarrow> number" where
  "parseInt str =
     (let (neg, s) = strip_sign (dropWhile is_ws str);
          z = takeWhile is_digit s
      in if z = [] then NaN
         else Num (if neg then - of_nat (digits_val z) else of_nat (digits_val z)))"

text \<open>
  The exponent part of a decimal literal, if the rest of the string starts with one:
  \<^verbatim>\<open>e\<close> or \<^verbatim>\<open>E\<close>, an optional sign, at least one digit.
\<close>

definition exponent_part :: "string \<Rightarrow> int" where
  "exponent_part r =
     (case r of
        [] \<Rightarrow> 0
      | c # r1 \<Rightarrow>
          if c = CHR ''e'' \<or> c = CHR ''E'' then
            (let (neg, r2) = strip_sign r1;
                 ds = takeWhile is_digit r2
             in if ds = [] then 0
                else if neg then - int (digits_val ds) else int (digits_val ds))
          else 0)"

definition scale10 :: "rat \<Rightarrow> int \<Rightarrow> rat" where
  "scale10 m e = (if 0 \<le> e then m * 10 ^ nat e else m / 10 ^ nat (- e))"

text \<open>
  \<^verbatim>\<open>parseFloat(str)\<close>: leading white space is skipped, then the longest prefix that is
  a decimal literal is read: a sign, then \<^verbatim>\<open>Infinity\<close>, or digits with an optional
  fraction and exponent, or a fraction starting with the point. What follows is ignored;
  no such prefix gives \<^verbatim>\<open>NaN\<close>.
\<close>

definition parseFloat :: "string \<Rightarrow> number" where
  "parseFloat str =
     (let (neg, u) = strip_sign (dropWhile is_ws str)
      in if take 8 u = ''Infinity'' then (if neg then NegInf else PosInf)
         else
           (let ip = takeWhile is_digit u;
                r1 = dropWhile is_digit u;
                has_point = (r1 \<noteq> [] \<and> hd r1 = CHR ''.'');
                fp = (if has_point then takeWhile is_digit (tl r1) else []);
                r2 = (if has_point then dropWhile is_digit (tl r1) else r1)
            in if ip = [] \<and> fp = [] then NaN
               else
                 (let m = of_nat (digits_val ip) + of_nat (digits_val fp) / 10 ^ length fp;
                      v = scale10 m (exponent_part r2)
                  in Num (if neg then - v else v))))"






section \<open>Time strings (EstimateInput.tsx)\<close>


text \<open>
  \<^verbatim>\<open>parseTimeToMs\<close>; \<open>None\<close> is \<^verbatim>\<open>null\<close>.
\<close>

definition parseTimeToMs :: "string \<Rightarrow> number option" where
  "parseTimeToMs timeString =
     (let trimmed = trim timeString
      in if trimmed = [] then None
         else
           (let parts = map trim (split CHR '':'' trimmed)
            in if length parts = 2 then
                 (let minutes = parseInt (parts ! 0);
                      seconds = parseFloat (parts ! 1)
                  in if isNaN minutes \<or> isNaN seconds \<or> js_lt minutes (Num 0) \<or> js_lt seconds (Num 0)
                     then None
                     else Some (js_mul (js_add (js_mul minutes (Num 60)) seconds) (Num 1000)))
               else if length parts = 3 then
                 (let hours = parseInt (parts ! 0);
                      minutes = parseInt (parts ! 1);
                      seconds = parseFloat (parts ! 2)
                  in if isNaN hours \<or> isNaN minutes \<or> isNaN seconds
                        \<or> js_lt hours (Num 0) \<or> js_lt minutes (Num 0) \<or> js_lt seconds (Num 0)
                     then None
                     else Some (js_mul (js_add (js_add (js_mul hours (Num 3600)) (js_mul minutes (Num 60)))
                                         seconds) (Num 1000)))
               else None))"

section \<open>Estimate reconciler (EstimateInput.tsx, RaceTimer.tsx)\<close>

record EstimatedSplits =
  treadmill :: "number option"
  skiErg :: "number option"
  rowing :: "number option"
  total :: "number option"

text \<open>The object \<^verbatim>\<open>{ ...existingEstimates }\<close> when there are no existing estimates.\<close>

definition noEstimates :: EstimatedSplits where
  "noEstimates = \<lparr>treadmill = None, skiErg = None, rowing = None, total = None\<rparr>"

text \<open>
  \<^verbatim>\<open>completedSplits.some(s => s.discipline === d)\<close>
\<close>

definition isCompleted :: "Split list \<Rightarrow> discipline \<Rightarrow> bool" where
  "isCompleted completedSplits d = list_ex (\<lambda>s. discipline s = d) completedSplits"

text \<open>
  One of the three blocks of \<^verbatim>\<open>handleConfirm\<close>, which differ in the name of the
  discipline only. \<open>est\<close> is the text of the form field and \<open>existing\<close> the value
  of the discipline in \<^verbatim>\<open>existingEstimates\<close> (which \<^verbatim>\<open>estimates\<close> starts as a copy
  of). The result says whether an error was recorded, and gives the new value of the
  discipline in \<^verbatim>\<open>estimates\<close>.
\<close>

definition confirmField :: "bool \<Rightarrow> string \<Rightarrow> number option \<Rightarrow> bool \<times> number option" where
  "confirmField completed est existing =
     (if \<not> completed \<and> trim est \<noteq> [] then
        (case parseTimeToMs est of
           None \<Rightarrow> (True, existing)
         | Some ms \<Rightarrow> if truthy ms then (False, Some ms) else (True, existing))
      else if \<not> completed \<and> trim est = [] \<and> truthy_opt existing then (False, None)
      else (False, existing))"

text \<open>
  \<^verbatim>\<open>a + b + c\<close> of three properties that are all present.
\<close>

definition sum3 :: "number option \<Rightarrow> number option \<Rightarrow> number option \<Rightarrow> number option" where
  "sum3 a b c =
     (case (a, b, c) of
        (Some x, Some y, Some z) \<Rightarrow> Some (js_add (js_add x y) z)
      | _ \<Rightarrow> None)"

text \<open>
  \<^verbatim>\<open>handleConfirm\<close> of the estimate form. \<open>Inl\<close>: the disciplines with an error;
  \<^verbatim>\<open>setErrors\<close> is called and \<^verbatim>\<open>onConfirm\<close> is not. \<open>Inr\<close>: the object passed to
  \<^verbatim>\<open>onConfirm\<close>.
\<close>

definition handleConfirm ::
  "EstimatedSplits option \<Rightarrow> Split list \<Rightarrow> string \<Rightarrow> string \<Rightarrow> string
     \<Rightarrow> discipline list + EstimatedSplits" where
  "handleConfirm existingEstimates completedSplits treadmillEst skiErgEst rowingEst =
     (let existing = (case existingEstimates of None \<Rightarrow> noEstimates | Some e \<Rightarrow> e);
          (errT, t) = confirmField (isCompleted completedSplits Treadmill) treadmillEst (treadmill existing);
          (errS, s) = confirmField (isCompleted completedSplits SkiErg) skiErgEst (skiErg existing);
          (errR, r) = confirmField (isCompleted completedSplits Rowing) rowingEst (rowing existing);
          newErrors = (if errT then [Treadmill] else []) @ (if errS then [SkiErg] else [])
                        @ (if errR then [Rowing] else [])
      in if newErrors \<noteq> [] then Inl newErrors
         else if truthy_opt t \<and> truthy_opt s \<and> truthy_opt r
           then Inr \<lparr>treadmill = t, skiErg = s, rowing = r, total = sum3 t s r\<rparr>
         else if truthy_opt (total existing)
           then Inr \<lparr>treadmill = t, skiErg = s, rowing = r, total = None\<rparr>
         else Inr \<lparr>treadmill = t, skiErg = s, rowing = r, total = total existing\<rparr>)"

text \<open>
  A property of \<^verbatim>\<open>{ ...estimatedSplits, ...newEstimates }\<close>: the new value where the
  new object has the key, the old one otherwise.
\<close>

definition spread :: "number option \<Rightarrow> number option \<Rightarrow> number option" where
  "spread old new = (case new of Some v \<Rightarrow> Some v | None \<Rightarrow> old)"

text \<open>
  \<^verbatim>\<open>handleEstimateConfirm\<close> of the race timer: the object it stores and passes to
  \<^verbatim>\<open>onUpdateEstimates\<close>.
\<close>

definition handleEstimateConfirm :: "EstimatedSplits option \<Rightarrow> EstimatedSplits \<Rightarrow> EstimatedSplits" where
  "handleEstimateConfirm estimatedSplits newEstimates =
     (let old = (case estimatedSplits of None \<Rightarrow> noEstimates | Some e \<Rightarrow> e);
          mergedEstimates =
            \<lparr>treadmill = spread (treadmill old) (treadmill newEstimates),
             skiErg = spread (skiErg old) (skiErg newEstimates),
             rowing = spread (rowing old) (rowing newEstimates),
             total = spread (total old) (total newEstimates)\<rparr>
      in if truthy_opt (treadmill mergedEstimates) \<and> truthy_opt (skiErg mergedEstimates)
            \<and> truthy_opt (rowing mergedEstimates)
         then mergedEstimates\<lparr>total := sum3 (treadmill mergedEstimates) (skiErg mergedEstimates)
                                          (rowing mergedEstimates)\<rparr>
         else mergedEstimates)"

text \<open>
  The estimates a race can carry. A race starts without estimates, or with the object
  confirmed in the estimate form of the race starter, which passes neither existing
  estimates nor completed splits. Afterwards every edit is a confirmed form of the race
  timer, opened on the stored estimates and the recorded splits, followed by the merge
  with the stored estimates.
\<close>

inductive stored_estimates :: "EstimatedSplits option \<Rightarrow> bool" where
  started_without: "stored_estimates None"
| started_with:
    "handleConfirm None [] treadmillEst skiErgEst rowingEst = Inr e
     \<Longrightarrow> stored_estimates (Some e)"
| edited:
    "stored_estimates stored
     \<Longrightarrow> handleConfirm stored completedSplits treadmillEst skiErgEst rowingEst = Inr e
     \<Longrightarrow> stored_estimates (Some (handleEstimateConfirm stored e))"





text \<open>
  The invariant behind the stored estimates: every value present is a positive number
  (possibly \<^verbatim>\<open>Infinity\<close>), and the total is present exactly with all three
  disciplines, as their sum.
\<close>

definition nonneg :: "number \<Rightarrow> bool" where
  "nonneg n = (case n of Num r \<Rightarrow> 0 \<le> r | PosInf \<Rightarrow> True | _ \<Rightarrow> False)"

definition positive :: "number \<Rightarrow> bool" where
  "positive n = (case n of Num r \<Rightarrow> 0 < r | PosInf \<Rightarrow> True | _ \<Rightarrow> False)"

definition posopt :: "number option \<Rightarrow> bool" where
  "posopt v = (case v of None \<Rightarrow> True | Some n \<Rightarrow> positive n)"

definition total_invariant :: "EstimatedSplits \<Rightarrow> bool" where
  "total_invariant e =
     ((total e \<noteq> None \<longleftrightarrow> treadmill e \<noteq> None \<and> skiErg e \<noteq> None \<and> rowing e \<noteq> None)
      \<and> (total e \<noteq> None \<longrightarrow> total e = sum3 (treadmill e) (skiErg e) (rowing e)))"

definition good :: "EstimatedSplits \<Rightarrow> bool" where
  "good e = (posopt (treadmill e) \<and> posopt (skiErg e) \<and> posopt (rowing e) \<and> posopt (total e)
             \<and> total_invariant e)"

definition good_opt :: "EstimatedSplits option \<Rightarrow> bool" where
  "good_opt E = good (case E of None \<Rightarrow> noEstimates | Some e \<Rightarrow> e)"

section \<open>Active race synchronizer (ActiveRacesManager.tsx)\<close>

text \<open>
  A document of the \<^verbatim>\<open>activeRaces\<close> collection, and the same with its document id, as
  the snapshot listener delivers it.
\<close>

record ActiveRaceDoc =
  ar_person :: Person
  ar_startTime :: rat
  ar_splits :: "Split list"
  ar_currentDisciplineIndex :: nat
  ar_estimatedSplits :: "EstimatedSplits option"
  ar_createdBy :: "string option"

record ActiveRace = ActiveRaceDoc +
  ar_id :: string

text \<open>The documents of \<^verbatim>\<open>results\<close> and \<^verbatim>\<open>persons\<close>, which carry no id either.\<close>

record ResultDoc =
  rd_personId :: string
  rd_personName :: string
  rd_splits :: "Split list"
  rd_totalTime :: rat
  rd_completedAt :: string
  rd_createdBy :: "string option"

record PersonDoc =
  pd_name :: string
  pd_createdAt :: string
  pd_createdBy :: "string option"

text \<open>The three collections of the shared store, each a map from document id to document.\<close>

record Firestore =
  activeRaces :: "string \<rightharpoonup> ActiveRaceDoc"
  results :: "string \<rightharpoonup> ResultDoc"
  persons :: "string \<rightharpoonup> PersonDoc"

datatype alert = DuplicateActiveRace string | PermissionDenied

text \<open>
  \<^verbatim>\<open>startRace\<close>, the body of the state updater. \<open>uuid\<close> is the value of
  \<^verbatim>\<open>crypto.randomUUID()\<close> and \<open>now\<close> that of \<^verbatim>\<open>Date.now()\<close>. The updater returns
  \<^verbatim>\<open>currentRaces\<close> in both branches, so the local view is not an output: the result is
  the alert shown, if any, and the store after the call.
\<close>

definition startRace ::
  "User option \<Rightarrow> string \<Rightarrow> rat \<Rightarrow> ActiveRace list \<Rightarrow> Firestore \<Rightarrow> Person
     \<Rightarrow> EstimatedSplits option \<Rightarrow> alert option \<times> Firestore" where
  "startRace user uuid now currentRaces db p estimatedSplits =
     (if list_ex (\<lambda>r. p_id (ar_person r) = p_id p) currentRaces
      then (Some (DuplicateActiveRace (p_name p)), db)
      else
        (let createdBy = currentUserId user;
             newRace = \<lparr>ar_person = p, ar_startTime = now, ar_splits = [],
                        ar_currentDisciplineIndex = 0, ar_estimatedSplits = estimatedSplits,
                        ar_createdBy = createdBy\<rparr>
         in (None, db\<lparr>activeRaces := (activeRaces db)(uuid \<mapsto> newRace)\<rparr>)))"

text \<open>
  \<^verbatim>\<open>removeRace\<close>: the alert shown, if any, and the store after the call.
\<close>

definition removeRace ::
  "User option \<Rightarrow> bool \<Rightarrow> ActiveRace list \<Rightarrow> Firestore \<Rightarrow> string \<Rightarrow> alert option \<times> Firestore" where
  "removeRace user isAdmin races db rid =
     (let race = find (\<lambda>r. ar_id r = rid) races;
          me = currentUserId user
      in if \<not> isAdmin
            \<and> (case race of None \<Rightarrow> False
                | Some r \<Rightarrow> truthy_str (ar_createdBy r) \<and> ar_createdBy r \<noteq> me)
         then (Some PermissionDenied, db)
         else (None, db\<lparr>activeRaces := (activeRaces db)(rid := None)\<rparr>))"

text \<open>
  \<^verbatim>\<open>canModify\<close>, computed for each race when the timers are rendered, and the props
  the race's timer is rendered with.
\<close>

definition canModify :: "User option \<Rightarrow> bool \<Rightarrow> ActiveRace \<Rightarrow> bool" where
  "canModify user isAdmin race =
     (isAdmin \<or> (truthy_str (ar_createdBy race) \<and> ar_createdBy race = currentUserId user))"

definition raceTimerProps :: "User option \<Rightarrow> bool \<Rightarrow> ActiveRace \<Rightarrow> RaceTimer" where
  "raceTimerProps user isAdmin race =
     \<lparr>raceId = ar_id race, person = ar_person race, startTimeRef = ar_startTime race,
      splits = ar_splits race, currentDisciplineIndex = ar_currentDisciplineIndex race,
      rt_canModify = canModify user isAdmin race, raceCreatedBy = ar_createdBy race\<rparr>"

text \<open>
  The other controls of the timer: the stop button exists when \<^verbatim>\<open>canModify\<close>; of the
  buttons "Edit estimates" and "Add Estimate" one exists, and only when \<^verbatim>\<open>canModify\<close>.
\<close>

definition stop_btn_rendered :: "RaceTimer \<Rightarrow> bool" where
  "stop_btn_rendered rt = rt_canModify rt"

definition estimate_btn_rendered :: "RaceTimer \<Rightarrow> EstimatedSplits option \<Rightarrow> bool" where
  "estimate_btn_rendered rt estimatedSplits =
     ((estimatedSplits \<noteq> None \<and> rt_canModify rt) \<or> (estimatedSplits = None \<and> rt_canModify rt))"

text \<open>
  Stopping a race: the click on the stop button, where there is one, runs
  \<^verbatim>\<open>handleStop\<close>, which calls \<^verbatim>\<open>onRaceComplete\<close>, that is
  \<^verbatim>\<open>handleRaceComplete(race.id)\<close>, which calls \<^verbatim>\<open>removeRace(race.id)\<close>. Nothing on
  this path saves a result. \<open>None\<close>: there was no button, nothing ran.
\<close>

definition stopRace ::
  "User option \<Rightarrow> bool \<Rightarrow> ActiveRace list \<Rightarrow> Firestore \<Rightarrow> ActiveRace
     \<Rightarrow> (alert option \<times> Firestore) option" where
  "stopRace user isAdmin races db race =
     (if stop_btn_rendered (raceTimerProps user isAdmin race)
      then Some (removeRace user isAdmin races db (ar_id race))
      else None)"

section \<open>Leaderboard ranker (Leaderboard.tsx)\<close>

datatype SortField = ByTotal | ByDiscipline discipline

datatype SortDirection = Asc | Desc

text \<open>
  \<^verbatim>\<open>a.splits.find(s => s.discipline === d)?.time || Infinity\<close>: a missing split and a
  split whose time is \<^verbatim>\<open>0\<close> both give \<^verbatim>\<open>Infinity\<close>.
\<close>

definition timeOrInfinity :: "discipline \<Rightarrow> RaceResult \<Rightarrow> number" where
  "timeOrInfinity d a =
     (case find (\<lambda>s. discipline s = d) (rr_splits a) of
        None \<Rightarrow> PosInf
      | Some s \<Rightarrow> if truthy (Num (time s)) then Num (time s) else PosInf)"

text \<open>The \<^verbatim>\<open>switch\<close> of the comparison function: the value a row is sorted by.\<close>

fun sortValue :: "SortField \<Rightarrow> RaceResult \<Rightarrow> number" where
  "sortValue ByTotal a = Num (totalTime a)"
| "sortValue (ByDiscipline d) a = timeOrInfinity d a"

text \<open>The comparison function passed to \<^verbatim>\<open>sort\<close>.\<close>

definition compareFn :: "SortField \<Rightarrow> SortDirection \<Rightarrow> RaceResult \<Rightarrow> RaceResult \<Rightarrow> number" where
  "compareFn sortField sortDirection a b =
     (let aValue = sortValue sortField a; bValue = sortValue sortField b
      in if sortDirection = Asc then js_sub aValue bValue else js_sub bValue aValue)"

text \<open>
  \<^verbatim>\<open>Array.prototype.sort\<close> with a comparison function: a stable sort that puts \<open>a\<close>
  after \<open>b\<close> only when the comparison of \<open>a\<close> with \<open>b\<close> is greater than zero
  (\<^verbatim>\<open>NaN\<close> counts as zero). It is modelled by insertion from the right, which keeps the
  order of rows that compare as equal.
\<close>

fun insert_sorted :: "('a \<Rightarrow> 'a \<Rightarrow> number) \<Rightarrow> 'a \<Rightarrow> 'a list \<Rightarrow> 'a list" where
  "insert_sorted cmp x [] = [x]"
| "insert_sorted cmp x (y # ys) =
     (if js_gt (cmp x y) (Num 0) then y # insert_sorted cmp x ys else x # y # ys)"

definition array_sort :: "('a \<Rightarrow> 'a \<Rightarrow> number) \<Rightarrow> 'a list \<Rightarrow> 'a list" where
  "array_sort cmp xs = foldr (insert_sorted cmp) xs []"

definition sortedResults :: "SortField \<Rightarrow> SortDirection \<Rightarrow> RaceResult list \<Rightarrow> RaceResult list" where
  "sortedResults sortField sortDirection allResults =
     array_sort (compareFn sortField sortDirection) allResults"

text \<open>\<^verbatim>\<open>handleSort\<close>: the new sort field and direction.\<close>

definition handleSort :: "SortField \<times> SortDirection \<Rightarrow> SortField \<Rightarrow> SortField \<times> SortDirection" where
  "handleSort st field =
     (if fst st = field then (fst st, if snd st = Asc then Desc else Asc) else (field, Asc))"

text \<open>Whether a row has a split of the discipline at all.\<close>

definition has_split :: "discipline \<Rightarrow> RaceResult \<Rightarrow> bool" where
  "has_split d a = list_ex (\<lambda>s. discipline s = d) (rr_splits a)"

text \<open>Whether a row has a split of the discipline with a time other than \<^verbatim>\<open>0\<close>.\<close>

definition has_time :: "discipline \<Rightarrow> RaceResult \<Rightarrow> bool" where
  "has_time d a =
     (case find (\<lambda>s. discipline s = d) (rr_splits a) of None \<Rightarrow> False | Some s \<Rightarrow> time s \<noteq> 0)"

text \<open>The order of the sort values: finite values by size, Infinity above them.\<close>

definition value_le :: "number \<Rightarrow> number \<Rightarrow> bool" where
  "value_le a b = (\<not> js_gt (js_sub a b) (Num 0))"

section \<open>Storage and import (storage.ts, excelExport.ts)\<close>

text \<open>
  \<^verbatim>\<open>storage.createPerson\<close>. \<open>stamp\<close> is \<^verbatim>\<open>new Date().toISOString()\<close>, \<open>autoId\<close>
  the document id that \<^verbatim>\<open>addDoc\<close> generates in the store, \<open>uuid\<close> the value of
  \<^verbatim>\<open>crypto.randomUUID()\<close>. The result is the store after the write and the person
  returned.
\<close>

definition createPerson ::
  "string \<Rightarrow> string \<Rightarrow> string \<Rightarrow> Firestore \<Rightarrow> string \<Rightarrow> string option \<Rightarrow> Firestore \<times> Person" where
  "createPerson stamp autoId uuid db name createdBy =
     (let by = (if truthy_str createdBy then createdBy else None);
          temp = \<lparr>pd_name = name, pd_createdAt = stamp, pd_createdBy = by\<rparr>
      in (db\<lparr>persons := (persons db)(autoId \<mapsto> temp)\<rparr>,
          \<lparr>p_id = uuid, p_name = name, p_createdAt = stamp, p_createdBy = by\<rparr>))"

text \<open>\<^verbatim>\<open>storage.saveResult\<close>: the document is written under the result's own id.\<close>

definition saveResult :: "Firestore \<Rightarrow> RaceResult \<Rightarrow> Firestore" where
  "saveResult db r =
     (let data = \<lparr>rd_personId = personId r, rd_personName = personName r, rd_splits = rr_splits r,
                  rd_totalTime = totalTime r, rd_completedAt = completedAt r,
                  rd_createdBy = (if truthy_str (rr_createdBy r) then rr_createdBy r else None)\<rparr>
      in db\<lparr>results := (results db)(rr_id r \<mapsto> data)\<rparr>)"

text \<open>
  A row of the "Results" sheet, as far as the import reads it. A missing or empty cell
  is \<open>None\<close>.
\<close>

record ResultRow =
  row_resultId :: "string option"
  row_personName :: "string option"
  row_personId :: "string option"
  row_treadmillMs :: "rat option"
  row_skiErgMs :: "rat option"
  row_rowingMs :: "rat option"
  row_totalMs :: "rat option"
  row_completedAt :: "string option"

text \<open>
  \<^verbatim>\<open>row[c] && row[c] > 0\<close> for a cell holding a number, and the split pushed then.
\<close>

definition row_split :: "discipline \<Rightarrow> rat option \<Rightarrow> string \<Rightarrow> Split list" where
  "row_split d cell stamp =
     (case cell of
        None \<Rightarrow> []
      | Some ms \<Rightarrow> if ms \<noteq> 0 \<and> 0 < ms then [\<lparr>discipline = d, time = ms, timestamp = stamp\<rparr>] else [])"

datatype row_status = Ignored | Skipped | Imported

text \<open>
  The body of \<^verbatim>\<open>resultsData.forEach\<close> in \<^verbatim>\<open>importFromExcel\<close>, for one row.
  \<open>personsCache\<close> is what \<^verbatim>\<open>storage.getPersons()\<close> returns (the listener's last
  snapshot), \<open>existingResultIds\<close> the ids collected before the loop. \<open>stamp\<close>,
  \<open>autoId\<close> and \<open>uuid\<close> are as in \<open>createPerson\<close>.
\<close>

definition importResultRow ::
  "string \<Rightarrow> string \<Rightarrow> string \<Rightarrow> Person list \<Rightarrow> string set \<Rightarrow> Firestore \<Rightarrow> ResultRow
     \<Rightarrow> row_status \<times> Firestore" where
  "importResultRow stamp autoId uuid personsCache existingResultIds db row =
     (if \<not> truthy_str (row_resultId row) \<or> \<not> truthy_str (row_personName row) then (Ignored, db)
      else if the (row_resultId row) \<in> existingResultIds then (Skipped, db)
      else
        (let rowSplits = row_split Treadmill (row_treadmillMs row) stamp
                           @ row_split SkiErg (row_skiErgMs row) stamp
                           @ row_split Rowing (row_rowingMs row) stamp;
             rowName = the (row_personName row);
             (db1, pid) =
               (if truthy_str (row_personId row) then (db, the (row_personId row))
                else
                  (case find (\<lambda>p. p_name p = rowName) personsCache of
                     Some p \<Rightarrow> (db, p_id p)
                   | None \<Rightarrow>
                       (let (db', newPerson) = createPerson stamp autoId uuid db rowName None
                        in (db', p_id newPerson))));
             result = \<lparr>rr_id = the (row_resultId row), personId = pid, personName = rowName,
                       rr_splits = rowSplits,
                       totalTime = (case row_totalMs row of None \<Rightarrow> 0 | Some t \<Rightarrow> t),
                       completedAt = (case row_completedAt row of
                                        None \<Rightarrow> stamp
                                      | Some c \<Rightarrow> if c \<noteq> [] then c else stamp),
                       rr_createdBy = None\<rparr>
         in (Imported, saveResult db1 result)))"

section \<open>Example values\<close>

text \<open>
  The scenario of the specification: a race started at clock reading 1000, with a
  treadmill split of 900000 ms and a ski split of 1100000 ms recorded, the rowing
  segment running.
\<close>

definition pat :: Person where
  "pat = \<lparr>p_id = ''p1'', p_name = ''Pat'', p_createdAt = ''t0'', p_createdBy = None\<rparr>"

definition scenario_timer :: RaceTimer where
  "scenario_timer =
     \<lparr>raceId = ''r1'', person = pat, startTimeRef = 1000,
      splits = [\<lparr>discipline = Treadmill, time = 900000, timestamp = ''t1''\<rparr>,
                \<lparr>discipline = SkiErg, time = 1100000, timestamp = ''t2''\<rparr>],
      currentDisciplineIndex = 2, rt_canModify = True,
      raceCreatedBy = Some ''alice@example.org''\<rparr>"

definition finished_timer :: RaceTimer where
  "finished_timer =
     scenario_timer\<lparr>splits := splits scenario_timer
                        @ [\<lparr>discipline = Rowing, time = 500000, timestamp = ''t3''\<rparr>],
                    currentDisciplineIndex := 3\<rparr>"

definition alice :: User where
  "alice = \<lparr>email = Some ''alice@example.org'', uid = ''u1''\<rparr>"

definition bob :: User where
  "bob = \<lparr>email = Some ''bob@example.org'', uid = ''u2''\<rparr>"

definition pat_race :: ActiveRace where
  "pat_race =
     \<lparr>ar_person = pat, ar_startTime = 1000, ar_splits = [], ar_currentDisciplineIndex = 0,
      ar_estimatedSplits = None, ar_createdBy = Some ''alice@example.org'', ar_id = ''r1''\<rparr>"

definition empty_db :: Firestore where
  "empty_db = \<lparr>activeRaces = Map.empty, results = Map.empty, persons = Map.empty\<rparr>"

text \<open>
  Estimates confirmed at the start of a race, the same after the rowing field was
  blanked in the form, and a row of a results sheet without a person id.
\<close>

definition start_estimates :: EstimatedSplits where
  "start_estimates =
     \<lparr>treadmill = Some (Num 900000), skiErg = Some (Num 1110000), rowing = Some (Num 450000),
      total = Some (Num 2460000)\<rparr>"

definition blanked_estimates :: EstimatedSplits where
  "blanked_estimates =
     \<lparr>treadmill = Some (Num 900000), skiErg = Some (Num 1110000), rowing = None, total = None\<rparr>"

definition nameless_row :: ResultRow where
  "nameless_row =
     \<lparr>row_resultId = Some ''res1'', row_personName = Some ''Kim'', row_personId = None,
      row_treadmillMs = Some 900000, row_skiErgMs = Some 1100000, row_rowingMs = Some 500000,
      row_totalMs = Some 2500000, row_completedAt = Some ''2024-01-01''\<rparr>"

text \<open>
  Three results: one with all three splits, one without a treadmill split, one whose
  treadmill split has time 0.
\<close>

definition full_result :: RaceResult where
  "full_result =
     \<lparr>rr_id = ''a'', personId = ''p1'', personName = ''Pat'',
      rr_splits = [\<lparr>discipline = Treadmill, time = 900000, timestamp = ''t1''\<rparr>,
                   \<lparr>discipline = SkiErg, time = 1100000, timestamp = ''t2''\<rparr>,
                   \<lparr>discipline = Rowing, time = 500000, timestamp = ''t3''\<rparr>],
      totalTime = 2500000, completedAt = ''t3'', rr_createdBy = None\<rparr>"

definition partial_result :: RaceResult where
  "partial_result =
     \<lparr>rr_id = ''b'', personId = ''p2'', personName = ''Kim'',
      rr_splits = [\<lparr>discipline = SkiErg, time = 1000000, timestamp = ''t2''\<rparr>,
                   \<lparr>discipline = Rowing, time = 450000, timestamp = ''t3''\<rparr>],
      totalTime = 1450000, completedAt = ''t3'', rr_createdBy = None\<rparr>"

definition zero_result :: RaceResult where
  "zero_result =
     \<lparr>rr_id = ''c'', personId = ''p3'', personName = ''Lee'',
      rr_splits = [\<lparr>discipline = Treadmill, time = 0, timestamp = ''t1''\<rparr>,
                   \<lparr>discipline = SkiErg, time = 1000000, timestamp = ''t2''\<rparr>,
                   \<lparr>discipline = Rowing, time = 450000, timestamp = ''t3''\<rparr>],
      totalTime = 1450000, completedAt = ''t3'', rr_createdBy = None\<rparr>"

section \<open>Properties of the race state machine\<close>


lemma sum_times_sum_list: "sum_times ss = sum_list (map time ss)"
proof -
  have "foldl (\<lambda>sum s. sum + time s) a ss = a + sum_list (map time ss)" for a
    by (induction ss arbitrary: a) (simp_all add: add.assoc)
  from this [of 0] show ?thesis by (simp add: sum_times_def)
qed

text \<open>
  C3. In every state with \<open>currentDisciplineIndex < 3\<close> and at every clock reading
  \<open>now\<close>, taking a split succeeds, appends one split whose time is
  \<open>(now - startTime)\<close> minus the sum of the times of the splits already recorded, and
  advances \<open>currentDisciplineIndex\<close> by exactly one; the same splits and index are
  passed on to the shared document.
\<close>

theorem take_split_segment:
  assumes "currentDisciplineIndex rt < 3"
  shows "\<exists>out. handleSplit rt user (now, stamp) clock' = Inr out
           \<and> splits (newState out) =
               splits rt @ [\<lparr>discipline = DISCIPLINES ! currentDisciplineIndex rt,
                             time = (now - startTimeRef rt) - sum_list (map time (splits rt)),
                             timestamp = stamp\<rparr>]
           \<and> currentDisciplineIndex (newState out) = currentDisciplineIndex rt + 1
           \<and> onUpdate out = (splits (newState out), currentDisciplineIndex (newState out))"
  using assms by (simp add: handleSplit_def DISCIPLINES_def Let_def sum_times_sum_list)

theorem take_split_segment_witness:
  "currentDisciplineIndex scenario_timer < 3
   \<and> (\<exists>out. handleSplit scenario_timer None (2501000, ''t3'') (2501000, ''t3'') = Inr out
         \<and> splits (newState out) =
             splits scenario_timer @ [\<lparr>discipline = Rowing, time = 500000, timestamp = ''t3''\<rparr>]
         \<and> currentDisciplineIndex (newState out) = 3)"
proof -
  have h: "currentDisciplineIndex scenario_timer < 3"
    by (simp add: scenario_timer_def)
  from take_split_segment [OF h, of None 2501000 "''t3''" "(2501000, ''t3'')"]
  show ?thesis
    by (auto simp add: scenario_timer_def DISCIPLINES_def)
qed

text \<open>
  C9. In the state with \<open>currentDisciplineIndex = 3\<close> the race is complete, the "Take
  Split" button is not rendered, so that a take-split attempt runs nothing, and the
  handler itself, were it called, throws before it sets or writes anything: no further
  split is recorded and the state stays as it is.
\<close>

theorem completed_takes_no_split:
  assumes "currentDisciplineIndex rt = 3"
  shows "isComplete rt \<and> \<not> split_btn_rendered rt
         \<and> takeSplit rt user clock clock' = None
         \<and> handleSplit rt user clock clock' = Inl TypeError"
  using assms
  by (simp add: isComplete_def split_btn_rendered_def takeSplit_def handleSplit_def DISCIPLINES_def)

theorem completed_takes_no_split_witness:
  "currentDisciplineIndex finished_timer = 3
   \<and> takeSplit finished_timer (Some alice) (2600000, ''t4'') (2600000, ''t4'') = None
   \<and> handleSplit finished_timer (Some alice) (2600000, ''t4'') (2600000, ''t4'') = Inl TypeError"
proof -
  have h: "currentDisciplineIndex finished_timer = 3"
    by (simp add: finished_timer_def)
  from completed_takes_no_split [OF h, of "Some alice" "(2600000, ''t4'')" "(2600000, ''t4'')"] h
  show ?thesis by simp
qed




section \<open>Properties of the active race synchronizer\<close>

text \<open>
  C6. When the cached view holds a race of the person, \<^verbatim>\<open>startRace\<close> shows the
  duplicate alert and leaves the store as it is. Otherwise it writes one new document,
  under the fresh id, with \<open>currentDisciplineIndex = 0\<close>, no splits, the given
  estimates and the caller's identity as \<open>createdBy\<close>, and touches nothing else.
\<close>

theorem startRace_duplicate_or_created:
  "(list_ex (\<lambda>r. p_id (ar_person r) = p_id p) currentRaces \<longrightarrow>
      startRace user uuid now currentRaces db p est = (Some (DuplicateActiveRace (p_name p)), db))
   \<and> (\<not> list_ex (\<lambda>r. p_id (ar_person r) = p_id p) currentRaces \<longrightarrow>
      (\<exists>db' doc. startRace user uuid now currentRaces db p est = (None, db')
         \<and> activeRaces db' uuid = Some doc
         \<and> (\<forall>k. k \<noteq> uuid \<longrightarrow> activeRaces db' k = activeRaces db k)
         \<and> results db' = results db \<and> persons db' = persons db
         \<and> ar_person doc = p \<and> ar_startTime doc = now
         \<and> ar_currentDisciplineIndex doc = 0 \<and> ar_splits doc = []
         \<and> ar_estimatedSplits doc = est \<and> ar_createdBy doc = currentUserId user))"
  by (simp add: startRace_def Let_def)

theorem startRace_duplicate_or_created_witness:
  "startRace (Some bob) ''r2'' 5000 [pat_race] empty_db pat None
     = (Some (DuplicateActiveRace ''Pat''), empty_db)
   \<and> (\<exists>db' doc. startRace (Some bob) ''r2'' 5000 [] empty_db pat None = (None, db')
         \<and> activeRaces db' ''r2'' = Some doc \<and> ar_currentDisciplineIndex doc = 0
         \<and> ar_splits doc = [] \<and> ar_createdBy doc = Some ''bob@example.org'')"
  using startRace_duplicate_or_created [of pat "[pat_race]" "Some bob" "''r2''" 5000 empty_db None]
        startRace_duplicate_or_created [of pat "[]" "Some bob" "''r2''" 5000 empty_db None]
  by (auto simp add: pat_race_def pat_def currentUserId_def bob_def)

lemma canModify_removeRace:
  assumes "find (\<lambda>r. ar_id r = ar_id race) races = Some race" "canModify user isAdmin race"
  shows "removeRace user isAdmin races db (ar_id race)
         = (None, db\<lparr>activeRaces := (activeRaces db)(ar_id race := None)\<rparr>)"
  using assms by (auto simp add: removeRace_def canModify_def Let_def)

text \<open>
  C4. For a race of the cached view and any caller, let \<open>allowed\<close> say that the caller
  is admin or that the race has a \<open>createdBy\<close> equal to the caller's identity. The stop
  button, the estimate button and (while the race is running) the split button are
  rendered exactly when \<open>allowed\<close>. When allowed, stopping deletes the race's document
  and changes nothing else in the store, the results included; when not, there is
  nothing to stop with and nothing runs. Whenever \<^verbatim>\<open>removeRace\<close> itself refuses, the
  store is unchanged.
\<close>

theorem stopRace_permission:
  assumes "find (\<lambda>r. ar_id r = ar_id race) races = Some race"
  shows "(let allowed = (isAdmin \<or> (\<exists>c. ar_createdBy race = Some c \<and> c \<noteq> []
                                         \<and> currentUserId user = Some c));
              rt = raceTimerProps user isAdmin race
          in (stop_btn_rendered rt \<longleftrightarrow> allowed)
             \<and> (split_btn_rendered rt \<longleftrightarrow> allowed \<and> \<not> isComplete rt)
             \<and> (estimate_btn_rendered rt (ar_estimatedSplits race) \<longleftrightarrow> allowed)
             \<and> (allowed \<longrightarrow> stopRace user isAdmin races db race
                    = Some (None, db\<lparr>activeRaces := (activeRaces db)(ar_id race := None)\<rparr>))
             \<and> (\<not> allowed \<longrightarrow> stopRace user isAdmin races db race = None)
             \<and> (\<forall>a db'. removeRace user isAdmin races db (ar_id race) = (Some a, db')
                    \<longrightarrow> db' = db))"
proof -
  have cm: "canModify user isAdmin race \<longleftrightarrow>
      (isAdmin \<or> (\<exists>c. ar_createdBy race = Some c \<and> c \<noteq> [] \<and> currentUserId user = Some c))"
    by (cases "ar_createdBy race") (auto simp add: canModify_def truthy_str_def)
  have rm: "\<forall>a db'. removeRace user isAdmin races db (ar_id race) = (Some a, db') \<longrightarrow> db' = db"
    by (auto simp add: removeRace_def Let_def split: if_splits)
  show ?thesis
    unfolding Let_def
    using cm rm canModify_removeRace [OF assms, of user isAdmin db]
    by (auto simp add: stop_btn_rendered_def split_btn_rendered_def estimate_btn_rendered_def
        raceTimerProps_def stopRace_def)
qed

theorem stopRace_permission_witness:
  "find (\<lambda>r. ar_id r = ar_id pat_race) [pat_race] = Some pat_race
   \<and> stopRace (Some alice) False [pat_race] (empty_db\<lparr>activeRaces := [''r1'' \<mapsto> ActiveRaceDoc.truncate pat_race]\<rparr>) pat_race
       = Some (None, empty_db)
   \<and> stopRace (Some bob) False [pat_race] (empty_db\<lparr>activeRaces := [''r1'' \<mapsto> ActiveRaceDoc.truncate pat_race]\<rparr>) pat_race
       = None
   \<and> stopRace (Some bob) True [pat_race] (empty_db\<lparr>activeRaces := [''r1'' \<mapsto> ActiveRaceDoc.truncate pat_race]\<rparr>) pat_race
       = Some (None, empty_db)"
proof -
  have h: "find (\<lambda>r. ar_id r = ar_id pat_race) [pat_race] = Some pat_race"
    by simp
  have a: "ar_createdBy pat_race = Some ''alice@example.org''" "ar_id pat_race = ''r1''"
    by (simp_all add: pat_race_def)
  have u: "currentUserId (Some alice) = Some ''alice@example.org''"
          "currentUserId (Some bob) = Some ''bob@example.org''"
    by (simp_all add: currentUserId_def alice_def bob_def)
  from stopRace_permission [OF h, of False "Some alice"]
       stopRace_permission [OF h, of False "Some bob"]
       stopRace_permission [OF h, of True "Some bob"] h a u
  show ?thesis
    by (simp add: Let_def empty_db_def)
qed

section \<open>Properties of the time strings\<close>

































section \<open>Properties of the estimate reconciler\<close>

lemma parseInt_cases: "parseInt s = NaN \<or> (\<exists>r. parseInt s = Num r)"
  by (simp add: parseInt_def Let_def split: prod.splits)

lemma int_part_nonneg:
  "\<not> isNaN (parseInt s) \<Longrightarrow> \<not> js_lt (parseInt s) (Num 0) \<Longrightarrow> \<exists>r. parseInt s = Num r \<and> 0 \<le> r"
  using parseInt_cases [of s] by (auto simp add: isNaN_def)

lemma float_part_nonneg:
  "\<not> isNaN n \<Longrightarrow> \<not> js_lt n (Num 0) \<Longrightarrow> nonneg n"
  by (cases n) (auto simp add: isNaN_def nonneg_def)

lemma ms2_nonneg:
  "0 \<le> m \<Longrightarrow> nonneg sec \<Longrightarrow> nonneg (js_mul (js_add (js_mul (Num m) (Num 60)) sec) (Num 1000))"
  by (cases sec) (auto simp add: nonneg_def)

lemma ms3_nonneg:
  "0 \<le> h \<Longrightarrow> 0 \<le> m \<Longrightarrow> nonneg sec \<Longrightarrow>
   nonneg (js_mul (js_add (js_add (js_mul (Num h) (Num 3600)) (js_mul (Num m) (Num 60))) sec) (Num 1000))"
  by (cases sec) (auto simp add: nonneg_def)

lemma parseTimeToMs_nonneg:
  assumes "parseTimeToMs s = Some ms"
  shows "nonneg ms"
proof -
  let ?parts = "map trim (split CHR '':'' (trim s))"
  consider (two) "length ?parts = 2" | (three) "length ?parts = 3" | (other) "length ?parts \<noteq> 2" "length ?parts \<noteq> 3"
    by blast
  then show ?thesis
  proof cases
    case two
    with assms have ok: "\<not> isNaN (parseInt (?parts ! 0))" "\<not> js_lt (parseInt (?parts ! 0)) (Num 0)"
       "\<not> isNaN (parseFloat (?parts ! 1))" "\<not> js_lt (parseFloat (?parts ! 1)) (Num 0)"
      and ms: "ms = js_mul (js_add (js_mul (parseInt (?parts ! 0)) (Num 60)) (parseFloat (?parts ! 1))) (Num 1000)"
      by (auto simp add: parseTimeToMs_def Let_def split: if_splits)
    from int_part_nonneg [OF ok(1,2)] obtain m where m: "parseInt (?parts ! 0) = Num m" "0 \<le> m" by blast
    from ms m ms2_nonneg [OF m(2) float_part_nonneg [OF ok(3,4)]] show ?thesis by simp
  next
    case three
    with assms have ok: "\<not> isNaN (parseInt (?parts ! 0))" "\<not> js_lt (parseInt (?parts ! 0)) (Num 0)"
       "\<not> isNaN (parseInt (?parts ! 1))" "\<not> js_lt (parseInt (?parts ! 1)) (Num 0)"
       "\<not> isNaN (parseFloat (?parts ! 2))" "\<not> js_lt (parseFloat (?parts ! 2)) (Num 0)"
      and ms: "ms = js_mul (js_add (js_add (js_mul (parseInt (?parts ! 0)) (Num 3600)) (js_mul (parseInt (?parts ! 1)) (Num 60))) (parseFloat (?parts ! 2))) (Num 1000)"
      by (auto simp add: parseTimeToMs_def Let_def split: if_splits)
    from int_part_nonneg [OF ok(1,2)] obtain h where h: "parseInt (?parts ! 0) = Num h" "0 \<le> h" by blast
    from int_part_nonneg [OF ok(3,4)] obtain m where m: "parseInt (?parts ! 1) = Num m" "0 \<le> m" by blast
    from ms h m ms3_nonneg [OF h(2) m(2) float_part_nonneg [OF ok(5,6)]] show ?thesis by simp
  next
    case other
    with assms show ?thesis by (auto simp add: parseTimeToMs_def Let_def split: if_splits)
  qed
qed

lemma nonneg_truthy_positive: "nonneg n \<Longrightarrow> truthy n \<Longrightarrow> positive n"
  by (cases n) (auto simp add: nonneg_def truthy_def positive_def)

lemma positive_truthy: "positive n \<Longrightarrow> truthy n"
  by (cases n) (auto simp add: truthy_def positive_def)

lemma positive_add: "positive a \<Longrightarrow> positive b \<Longrightarrow> positive (js_add a b)"
  by (cases a; cases b) (auto simp add: positive_def)

lemma posopt_truthy_iff: "posopt v \<Longrightarrow> truthy_opt v \<longleftrightarrow> v \<noteq> None"
  by (cases v) (auto simp add: posopt_def truthy_opt_def positive_truthy)

lemma posopt_sum3: "posopt a \<Longrightarrow> posopt b \<Longrightarrow> posopt c \<Longrightarrow> posopt (sum3 a b c)"
  by (cases a; cases b; cases c) (auto simp add: posopt_def sum3_def positive_add)

lemma sum3_Some_iff: "sum3 a b c \<noteq> None \<longleftrightarrow> a \<noteq> None \<and> b \<noteq> None \<and> c \<noteq> None"
  by (cases a; cases b; cases c) (auto simp add: sum3_def)

lemma confirmField_posopt:
  assumes "confirmField completed est existing = (err, v)" "posopt existing"
  shows "posopt v"
  using assms parseTimeToMs_nonneg [of est]
  by (auto simp add: confirmField_def posopt_def nonneg_truthy_positive
      split: if_splits option.splits)

lemma good_noEstimates: "good noEstimates"
  by (simp add: good_def noEstimates_def posopt_def total_invariant_def)

lemma handleConfirm_good:
  assumes "handleConfirm E cs a b c = Inr e" "good_opt E"
  shows "good e"
proof -
  define ex where "ex = (case E of None \<Rightarrow> noEstimates | Some e \<Rightarrow> e)"
  obtain errT t where T: "confirmField (isCompleted cs Treadmill) a (treadmill ex) = (errT, t)" by fastforce
  obtain errS s where S: "confirmField (isCompleted cs SkiErg) b (skiErg ex) = (errS, s)" by fastforce
  obtain errR r where R: "confirmField (isCompleted cs Rowing) c (rowing ex) = (errR, r)" by fastforce
  from assms(2) have g: "good ex" by (simp add: good_opt_def ex_def)
  then have p: "posopt t" "posopt s" "posopt r"
    using confirmField_posopt [OF T] confirmField_posopt [OF S] confirmField_posopt [OF R]
    by (simp_all add: good_def)
  have tot: "\<not> truthy_opt (total ex) \<Longrightarrow> total ex = None"
    using g posopt_truthy_iff [of "total ex"] by (simp add: good_def)
  have e: "e = (if truthy_opt t \<and> truthy_opt s \<and> truthy_opt r
           then \<lparr>treadmill = t, skiErg = s, rowing = r, total = sum3 t s r\<rparr>
         else if truthy_opt (total ex)
           then \<lparr>treadmill = t, skiErg = s, rowing = r, total = None\<rparr>
         else \<lparr>treadmill = t, skiErg = s, rowing = r, total = total ex\<rparr>)"
    using assms(1) T S R
    by (auto simp add: handleConfirm_def ex_def [symmetric] Let_def split: if_splits)
  show ?thesis
  proof (cases "truthy_opt t \<and> truthy_opt s \<and> truthy_opt r")
    case True
    with e p posopt_sum3 [of t s r] sum3_Some_iff [of t s r] show ?thesis
      by (simp add: good_def total_invariant_def posopt_truthy_iff)
  next
    case False
    with e p tot show ?thesis
      by (auto simp add: good_def total_invariant_def posopt_truthy_iff posopt_def)
  qed
qed

lemma spread_posopt: "posopt old \<Longrightarrow> posopt new \<Longrightarrow> posopt (spread old new)"
  by (cases new) (auto simp add: spread_def)

lemma spread_None_iff: "spread old new = None \<longleftrightarrow> old = None \<and> new = None"
  by (cases new) (auto simp add: spread_def)

lemma handleEstimateConfirm_good:
  assumes "good_opt E" "good e"
  shows "good (handleEstimateConfirm E e)"
proof -
  define old where "old = (case E of None \<Rightarrow> noEstimates | Some e \<Rightarrow> e)"
  define t where "t = spread (treadmill old) (treadmill e)"
  define s where "s = spread (skiErg old) (skiErg e)"
  define r where "r = spread (rowing old) (rowing e)"
  from assms(1) have g: "good old" by (simp add: good_opt_def old_def)
  have p: "posopt t" "posopt s" "posopt r" "posopt (spread (total old) (total e))"
    using g assms(2) by (simp_all add: t_def s_def r_def good_def spread_posopt)
  have m: "handleEstimateConfirm E e =
      (if truthy_opt t \<and> truthy_opt s \<and> truthy_opt r
       then \<lparr>treadmill = t, skiErg = s, rowing = r, total = sum3 t s r\<rparr>
       else \<lparr>treadmill = t, skiErg = s, rowing = r, total = spread (total old) (total e)\<rparr>)"
    by (simp add: handleEstimateConfirm_def old_def [symmetric] Let_def t_def s_def r_def)
  show ?thesis
  proof (cases "truthy_opt t \<and> truthy_opt s \<and> truthy_opt r")
    case True
    with m p posopt_sum3 [of t s r] sum3_Some_iff [of t s r] show ?thesis
      by (simp add: good_def total_invariant_def posopt_truthy_iff)
  next
    case False
    then have "t = None \<or> s = None \<or> r = None"
      using p by (auto simp add: posopt_truthy_iff)
    then have "total old = None \<and> total e = None"
      using g assms(2) by (auto simp add: t_def s_def r_def spread_None_iff good_def total_invariant_def)
    with False m p show ?thesis
      by (auto simp add: good_def total_invariant_def posopt_truthy_iff spread_def)
  qed
qed

lemma stored_estimates_good: "stored_estimates E \<Longrightarrow> good_opt E"
proof (induction rule: stored_estimates.induct)
  case started_without
  then show ?case by (simp add: good_opt_def good_noEstimates)
next
  case (started_with a b c e)
  from handleConfirm_good [OF this] show ?case
    by (simp add: good_opt_def good_noEstimates)
next
  case (edited stored cs a b c e)
  from handleEstimateConfirm_good [OF edited.IH handleConfirm_good [OF edited.hyps(2) edited.IH]]
  show ?case by (simp add: good_opt_def)
qed

text \<open>
  C2. In the estimates a race carries after any sequence of estimate edits (the
  confirmed form, then the merge with the estimates stored before), the total is
  present if and only if the treadmill, ski and rowing estimates are all present, and a
  total that is present is their sum.
\<close>

theorem stored_total_iff_all_present:
  assumes "stored_estimates (Some e)"
  shows "(total e \<noteq> None \<longleftrightarrow> treadmill e \<noteq> None \<and> skiErg e \<noteq> None \<and> rowing e \<noteq> None)
         \<and> (\<forall>tot. total e = Some tot \<longrightarrow>
               (\<exists>t s r. treadmill e = Some t \<and> skiErg e = Some s \<and> rowing e = Some r
                        \<and> tot = js_add (js_add t s) r))"
proof -
  from stored_estimates_good [OF assms] have "total_invariant e"
    by (simp add: good_opt_def good_def)
  then show ?thesis
    by (cases "treadmill e"; cases "skiErg e"; cases "rowing e")
       (auto simp add: total_invariant_def sum3_def)
qed

theorem stored_total_iff_all_present_witness:
  "stored_estimates (Some start_estimates)
   \<and> total start_estimates = Some (Num 2460000)
   \<and> stored_estimates (Some (handleEstimateConfirm (Some start_estimates) blanked_estimates))
   \<and> total (handleEstimateConfirm (Some start_estimates) blanked_estimates) = Some (Num 2460000)"
proof -
  have a: "handleConfirm None [] ''15:00'' ''18:30'' ''7:30'' = Inr start_estimates"
    by code_simp
  have b: "handleConfirm (Some start_estimates) [] ''15:00'' ''18:30'' [] = Inr blanked_estimates"
    by code_simp
  have s1: "stored_estimates (Some start_estimates)"
    by (rule stored_estimates.started_with [OF a])
  have s2: "stored_estimates (Some (handleEstimateConfirm (Some start_estimates) blanked_estimates))"
    by (rule stored_estimates.edited [OF s1 b])
  from stored_total_iff_all_present [OF s1] stored_total_iff_all_present [OF s2] s1 s2
  show ?thesis
    by (simp add: start_estimates_def blanked_estimates_def handleEstimateConfirm_def spread_def
        truthy_opt_def truthy_def sum3_def Let_def)
qed

lemma nonneg_falsy: "nonneg n \<Longrightarrow> \<not> truthy n \<longleftrightarrow> n = Num 0"
  by (cases n) (auto simp add: nonneg_def truthy_def)












section \<open>Properties of the leaderboard ranker\<close>

text \<open>
  C5, as stated, fails. Sorted by treadmill time in descending direction, a result
  without a treadmill split comes before a result that has one. In ascending direction
  a result whose treadmill split has time 0 counts as one without: it stays behind a
  result that has no treadmill split at all.
\<close>

theorem sort_missing_counterexample:
  "has_split Treadmill full_result \<and> \<not> has_split Treadmill partial_result
   \<and> sortedResults (ByDiscipline Treadmill) Desc [full_result, partial_result]
       = [partial_result, full_result]
   \<and> has_split Treadmill zero_result
   \<and> sortedResults (ByDiscipline Treadmill) Asc [partial_result, zero_result]
       = [partial_result, zero_result]"
  by (simp add: has_split_def full_result_def partial_result_def zero_result_def sortedResults_def array_sort_def
      compareFn_def timeOrInfinity_def js_sub_def js_gt_def truthy_def)

lemma insert_sorted_set: "set (insert_sorted cmp x ys) = insert x (set ys)"
  by (induction ys) auto

lemma insert_sorted_length: "length (insert_sorted cmp x ys) = Suc (length ys)"
  by (induction ys) auto

lemma array_sort_set: "set (array_sort cmp xs) = set xs"
  by (induction xs) (simp_all add: array_sort_def insert_sorted_set)

lemma array_sort_length: "length (array_sort cmp xs) = length xs"
  by (induction xs) (simp_all add: array_sort_def insert_sorted_length)

lemma insert_sorted_sorted:
  assumes tr: "\<And>a b c. le a b \<Longrightarrow> le b c \<Longrightarrow> le a c"
    and gt: "\<And>a b. js_gt (cmp a b) (Num 0) \<Longrightarrow> le b a"
    and ngt: "\<And>a b. \<not> js_gt (cmp a b) (Num 0) \<Longrightarrow> le a b"
    and srt: "sorted_wrt le ys"
  shows "sorted_wrt le (insert_sorted cmp x ys)"
  using srt
proof (induction ys)
  case Nil
  then show ?case by simp
next
  case (Cons y ys)
  show ?case
  proof (cases "js_gt (cmp x y) (Num 0)")
    case True
    with Cons gt [OF True] show ?thesis
      by (auto simp add: insert_sorted_set)
  next
    case False
    from ngt [OF False] have "le x y" .
    with Cons.prems tr have "\<forall>z \<in> set ys. le x z" by auto
    with False Cons.prems \<open>le x y\<close> show ?thesis by simp
  qed
qed

lemma array_sort_sorted:
  assumes tr: "\<And>a b c. le a b \<Longrightarrow> le b c \<Longrightarrow> le a c"
    and gt: "\<And>a b. js_gt (cmp a b) (Num 0) \<Longrightarrow> le b a"
    and ngt: "\<And>a b. \<not> js_gt (cmp a b) (Num 0) \<Longrightarrow> le a b"
  shows "sorted_wrt le (array_sort cmp xs)"
proof (induction xs)
  case Nil
  then show ?case by (simp add: array_sort_def)
next
  case (Cons x xs)
  from insert_sorted_sorted [of le cmp, OF tr gt ngt Cons.IH]
  show ?case by (simp add: array_sort_def)
qed

lemma sortValue_cases: "(\<exists>r. sortValue f a = Num r) \<or> sortValue f a = PosInf"
  by (cases f) (auto simp add: timeOrInfinity_def split: option.splits)

lemma value_le_trans:
  assumes "(\<exists>r. a = Num r) \<or> a = PosInf" "(\<exists>r. b = Num r) \<or> b = PosInf" "(\<exists>r. c = Num r) \<or> c = PosInf"
    "value_le a b" "value_le b c"
  shows "value_le a c"
  using assms by (auto simp add: value_le_def js_sub_def js_gt_def)

lemma value_le_total:
  assumes "(\<exists>r. a = Num r) \<or> a = PosInf" "(\<exists>r. b = Num r) \<or> b = PosInf" "\<not> value_le a b"
  shows "value_le b a"
  using assms by (auto simp add: value_le_def js_sub_def js_gt_def)

lemma value_le_PosInf:
  assumes "(\<exists>r. b = Num r) \<or> b = PosInf" "value_le PosInf b"
  shows "b = PosInf"
  using assms by (auto simp add: value_le_def js_sub_def js_gt_def)

lemma sortedResults_Asc:
  "sorted_wrt (\<lambda>a b. value_le (sortValue f a) (sortValue f b)) (sortedResults f Asc rs)"
  unfolding sortedResults_def
proof (rule array_sort_sorted)
  fix a b c
  assume "value_le (sortValue f a) (sortValue f b)" "value_le (sortValue f b) (sortValue f c)"
  then show "value_le (sortValue f a) (sortValue f c)"
    using value_le_trans [OF sortValue_cases sortValue_cases sortValue_cases] by blast
next
  fix a b
  assume "js_gt (compareFn f Asc a b) (Num 0)"
  then have "\<not> value_le (sortValue f a) (sortValue f b)"
    by (simp add: compareFn_def value_le_def Let_def)
  then show "value_le (sortValue f b) (sortValue f a)"
    using value_le_total [OF sortValue_cases sortValue_cases] by blast
next
  fix a b
  assume "\<not> js_gt (compareFn f Asc a b) (Num 0)"
  then show "value_le (sortValue f a) (sortValue f b)"
    by (simp add: compareFn_def value_le_def Let_def)
qed

lemma sortedResults_Desc:
  "sorted_wrt (\<lambda>a b. value_le (sortValue f b) (sortValue f a)) (sortedResults f Desc rs)"
  unfolding sortedResults_def
proof (rule array_sort_sorted)
  fix a b c
  assume "value_le (sortValue f b) (sortValue f a)" "value_le (sortValue f c) (sortValue f b)"
  then show "value_le (sortValue f c) (sortValue f a)"
    using value_le_trans [OF sortValue_cases sortValue_cases sortValue_cases] by blast
next
  fix a b
  assume "js_gt (compareFn f Desc a b) (Num 0)"
  then have "\<not> value_le (sortValue f b) (sortValue f a)"
    by (simp add: compareFn_def value_le_def Let_def)
  then show "value_le (sortValue f a) (sortValue f b)"
    using value_le_total [OF sortValue_cases sortValue_cases] by blast
next
  fix a b
  assume "\<not> js_gt (compareFn f Desc a b) (Num 0)"
  then show "value_le (sortValue f b) (sortValue f a)"
    by (simp add: compareFn_def value_le_def Let_def)
qed

lemma has_time_iff: "has_time d a \<longleftrightarrow> sortValue (ByDiscipline d) a \<noteq> PosInf"
  by (auto simp add: has_time_def timeOrInfinity_def truthy_def split: option.splits)

text \<open>
  C5, amended. Sorting by the split time of one discipline keeps the rows and, in
  ascending direction, puts every row without a non-zero split time of the discipline
  after every row with one; in descending direction it puts every such row before every
  row with one.
\<close>

theorem sort_missing_by_direction:
  "(let out = sortedResults (ByDiscipline d) dir rs
    in set out = set rs \<and> length out = length rs
       \<and> (\<forall>i j. i < j \<and> j < length out \<longrightarrow>
            (dir = Asc \<longrightarrow> \<not> has_time d (out ! i) \<longrightarrow> \<not> has_time d (out ! j))
          \<and> (dir = Desc \<longrightarrow> \<not> has_time d (out ! j) \<longrightarrow> \<not> has_time d (out ! i))))"
proof -
  define out where "out = sortedResults (ByDiscipline d) dir rs"
  have sl: "set out = set rs" "length out = length rs"
    by (simp_all add: out_def sortedResults_def array_sort_set array_sort_length)
  have asc: "\<not> has_time d (out ! j)"
    if "i < j" "j < length out" "dir = Asc" "\<not> has_time d (out ! i)" for i j
  proof -
    from sortedResults_Asc [of "ByDiscipline d" rs] that
    have "value_le (sortValue (ByDiscipline d) (out ! i)) (sortValue (ByDiscipline d) (out ! j))"
      by (simp add: out_def sorted_wrt_iff_nth_less)
    with that(4) value_le_PosInf [OF sortValue_cases [of "ByDiscipline d" "out ! j"]]
    show ?thesis by (simp add: has_time_iff)
  qed
  have desc: "\<not> has_time d (out ! i)"
    if "i < j" "j < length out" "dir = Desc" "\<not> has_time d (out ! j)" for i j
  proof -
    from sortedResults_Desc [of "ByDiscipline d" rs] that
    have "value_le (sortValue (ByDiscipline d) (out ! j)) (sortValue (ByDiscipline d) (out ! i))"
      by (simp add: out_def sorted_wrt_iff_nth_less)
    with that(4) value_le_PosInf [OF sortValue_cases [of "ByDiscipline d" "out ! i"]]
    show ?thesis by (simp add: has_time_iff)
  qed
  from sl asc desc show ?thesis
    unfolding Let_def out_def [symmetric] by blast
qed

theorem sort_missing_by_direction_witness:
  "sortedResults (ByDiscipline Treadmill) Asc [partial_result, full_result]
     = [full_result, partial_result]
   \<and> sortedResults (ByDiscipline Treadmill) Desc [full_result, partial_result]
     = [partial_result, full_result]
   \<and> has_time Treadmill full_result \<and> \<not> has_time Treadmill partial_result"
proof -
  have a: "sortedResults (ByDiscipline Treadmill) Asc [partial_result, full_result]
             = [full_result, partial_result]"
    and b: "sortedResults (ByDiscipline Treadmill) Desc [full_result, partial_result]
             = [partial_result, full_result]"
    and c: "has_time Treadmill full_result" "\<not> has_time Treadmill partial_result"
    by (simp_all add: has_time_def full_result_def partial_result_def sortedResults_def
        array_sort_def compareFn_def timeOrInfinity_def js_sub_def js_gt_def truthy_def)
  from sort_missing_by_direction [of Treadmill Asc "[partial_result, full_result]"]
       sort_missing_by_direction [of Treadmill Desc "[full_result, partial_result]"] a b c
  show ?thesis
    by simp
qed

section \<open>Properties of storage and import\<close>

text \<open>
  C10. Let the random id of \<^verbatim>\<open>createPerson\<close> be fresh: different from the id the
  store generates and from the ids of the person documents there. Then the person
  returned carries the random id, while the document is stored under the generated id,
  so that the returned id is the id of no person document. When the import meets a result
  row without a person id whose name is not in the cached persons, the result it saves
  has the random id as \<open>personId\<close>, which is the id of no person document in the
  store, the one just created included.
\<close>

theorem created_person_id_matches_no_document:
  assumes fresh: "uuid \<noteq> autoId" "uuid \<notin> dom (persons db)"
  shows "(\<exists>db' p. createPerson stamp autoId uuid db name createdBy = (db', p)
            \<and> p_id p = uuid \<and> p_name p = name
            \<and> dom (persons db') = insert autoId (dom (persons db))
            \<and> (\<exists>doc. persons db' autoId = Some doc \<and> pd_name doc = name)
            \<and> p_id p \<notin> dom (persons db'))
       \<and> (truthy_str (row_resultId row) \<and> the (row_resultId row) \<notin> existingResultIds
          \<and> truthy_str (row_personName row) \<and> \<not> truthy_str (row_personId row)
          \<and> find (\<lambda>p. p_name p = the (row_personName row)) personsCache = None
          \<longrightarrow> (\<exists>db' r. importResultRow stamp autoId uuid personsCache existingResultIds db row
                          = (Imported, db')
                \<and> results db' (the (row_resultId row)) = Some r
                \<and> rd_personId r = uuid
                \<and> (\<exists>doc. persons db' autoId = Some doc \<and> pd_name doc = the (row_personName row))
                \<and> rd_personId r \<notin> dom (persons db')))"
  using fresh
  by (auto simp add: createPerson_def importResultRow_def saveResult_def Let_def)

theorem created_person_id_matches_no_document_witness:
  "''6f1c'' \<noteq> ''Zk3'' \<and> ''6f1c'' \<notin> dom (persons empty_db)
   \<and> (\<exists>db' r. importResultRow ''now'' ''Zk3'' ''6f1c'' [pat] {} empty_db nameless_row = (Imported, db')
         \<and> results db' ''res1'' = Some r \<and> rd_personId r = ''6f1c''
         \<and> dom (persons db') = {''Zk3''})"
proof -
  have f: "''6f1c'' \<noteq> ''Zk3''" "''6f1c'' \<notin> dom (persons empty_db)"
    by (simp_all add: empty_db_def)
  from created_person_id_matches_no_document [OF f, of "''now''" "''Kim''" None nameless_row "{}" "[pat]"]
  show ?thesis using f
    by (auto simp add: nameless_row_def truthy_str_def pat_def importResultRow_def createPerson_def saveResult_def Let_def empty_db_def)
qed

end
